theory Spec2Isabelle
  imports Complex_Main "HOL-Library.Monad_Syntax"
begin

section \<open>GLIMPSE concordance module of MultiQC: errors-by-sample parser\<close>

text \<open>
  A shallow embedding of \<^verbatim>\<open>multiqc/modules/glimpse/err_spl.py\<close> and of the constructor
  of \<^verbatim>\<open>multiqc/modules/glimpse/glimpse.py\<close>.

  A Python \<^verbatim>\<open>str\<close> is a \<^typ>\<open>string\<close>; a \<^typ>\<open>char\<close> stands for the code point of the
  same number, so the development covers texts over the code points below 256.
  An exception is a value \<open>Inl e\<close> of a sum type, a normal return is \<open>Inr v\<close>.
\<close>

subsection \<open>The Python built-ins the parser calls\<close>

datatype error = IndexError | ValueError | NameError | ModuleNoSamplesFound

text \<open>
  \<^verbatim>\<open>str.splitlines()\<close> ends a line at each of the line boundaries of a \<^verbatim>\<open>str\<close>:
  LF, VT, FF, CR, FS, GS, RS and NEL, with CR LF counted as one boundary. No line follows
  the last boundary, so the empty text has no line.
\<close>

definition is_linebreak :: "char \<Rightarrow> bool" where
  "is_linebreak c \<longleftrightarrow>
     c \<in> set [CHR 0x0A, CHR 0x0B, CHR 0x0C, CHR 0x0D, CHR 0x1C, CHR 0x1D, CHR 0x1E, CHR 0x85]"

fun splitlines_from :: "string \<Rightarrow> string \<Rightarrow> string list" where
  "splitlines_from cur [] = (if cur = [] then [] else [cur])"
| "splitlines_from cur (c # s) =
     (if c = CHR 0x0D \<and> s \<noteq> [] \<and> hd s = CHR 0x0A then cur # splitlines_from [] (tl s)
      else if is_linebreak c then cur # splitlines_from [] s
      else splitlines_from (cur @ [c]) s)"

definition splitlines :: "string \<Rightarrow> string list" where
  "splitlines s = splitlines_from [] s"

text \<open>
  \<^verbatim>\<open>str.strip()\<close> removes the characters for which \<^verbatim>\<open>str.isspace()\<close> holds from both
  ends: TAB, LF, VT, FF, CR, FS, GS, RS, US, space, NEL and NBSP.
\<close>

definition isspace :: "char \<Rightarrow> bool" where
  "isspace c \<longleftrightarrow>
     c \<in> set [CHR 0x09, CHR 0x0A, CHR 0x0B, CHR 0x0C, CHR 0x0D, CHR 0x1C, CHR 0x1D, CHR 0x1E,
              CHR 0x1F, CHR 0x20, CHR 0x85, CHR 0xA0]"

definition strip :: "string \<Rightarrow> string" where
  "strip s = rev (dropWhile isspace (rev (dropWhile isspace s)))"

text \<open>
  \<^verbatim>\<open>s.split(sep)\<close> with a one-character separator cuts at every occurrence and keeps
  empty pieces; the result always has at least one element.
\<close>

fun split_from :: "char \<Rightarrow> string \<Rightarrow> string \<Rightarrow> string list" where
  "split_from sep cur [] = [cur]"
| "split_from sep cur (c # s) =
     (if c = sep then cur # split_from sep [] s else split_from sep (cur @ [c]) s)"

definition split :: "char \<Rightarrow> string \<Rightarrow> string list" where
  "split sep s = split_from sep [] s"

text \<open>
  The decimal grammar shared by \<^verbatim>\<open>int()\<close> and \<^verbatim>\<open>float()\<close>: a digit part is a
  non-empty run of digits in which single underscores may stand between two digits.
\<close>

definition is_digit :: "char \<Rightarrow> bool" where
  "is_digit c \<longleftrightarrow> c \<in> set ''0123456789''"

definition digit_val :: "char \<Rightarrow> nat" where
  "digit_val c = of_char c - 48"

definition digits_val :: "string \<Rightarrow> nat" where
  "digits_val ds = foldl (\<lambda>n c. 10 * n + digit_val c) 0 ds"

definition digitpart :: "string \<Rightarrow> string option" where
  "digitpart s =
     (let groups = split (CHR ''_'') s
      in if \<forall>g \<in> set groups. g \<noteq> [] \<and> (\<forall>c \<in> set g. is_digit c)
         then Some (concat groups) else None)"

fun split_sign :: "string \<Rightarrow> bool \<times> string" where
  "split_sign [] = (False, [])"
| "split_sign (c # s) =
     (if c = CHR ''-'' then (True, s) else if c = CHR ''+'' then (False, s) else (False, c # s))"

text \<open>
  \<^verbatim>\<open>int(s)\<close> on a \<^verbatim>\<open>str\<close>: surrounding whitespace is dropped, then an optional sign
  and a digit part in base ten; anything else raises \<^verbatim>\<open>ValueError\<close> (\<open>None\<close>).
  The interpreter's configurable limit on the number of digits is not part of the model.
\<close>

definition py_int :: "string \<Rightarrow> int option" where
  "py_int s =
     (let (neg, body) = split_sign (strip s)
      in case digitpart body of
           None \<Rightarrow> None
         | Some ds \<Rightarrow> Some (if neg then - int (digits_val ds) else int (digits_val ds)))"

text \<open>
  A Python \<^verbatim>\<open>float\<close>. \<open>Finite q\<close> is the binary64 number that is nearest to the
  rational \<open>q\<close>: the model keeps the decimal value that the token denotes, and the
  rounding, a function of that value, is left to the reader of the value.
\<close>

datatype pyfloat = Finite rat | Infinity bool | NaN

definition lower :: "string \<Rightarrow> string" where
  "lower s = map (\<lambda>c. if (65::nat) \<le> of_char c \<and> of_char c \<le> (90::nat) then char_of (of_char c + (32::nat)) else c) s"

text \<open>\<^verbatim>\<open>s.partition(sep)\<close> for a class of one-character separators: the text before the
  first separator and, when there is one, the text after it.\<close>

definition partition_at :: "(char \<Rightarrow> bool) \<Rightarrow> string \<Rightarrow> string \<times> string option" where
  "partition_at P s =
     (takeWhile (\<lambda>c. \<not> P c) s,
      case dropWhile (\<lambda>c. \<not> P c) s of [] \<Rightarrow> None | _ # r \<Rightarrow> Some r)"

text \<open>\<open>number ::= [digitpart] "." digitpart | digitpart ["."]\<close>\<close>

definition number :: "string \<Rightarrow> rat option" where
  "number s =
     (case partition_at (\<lambda>c. c = CHR ''.'') s of
        (ip, None) \<Rightarrow> map_option (\<lambda>ds. of_nat (digits_val ds)) (digitpart ip)
      | (ip, Some fp) \<Rightarrow>
          if ip = [] \<and> fp = [] then None
          else (case (if ip = [] then Some [] else digitpart ip,
                      if fp = [] then Some [] else digitpart fp) of
                  (Some i, Some f) \<Rightarrow>
                    Some (of_nat (digits_val i) + of_nat (digits_val f) / 10 ^ length f)
                | _ \<Rightarrow> None))"

text \<open>\<open>exponent ::= ("e" | "E") [sign] digitpart\<close>, here without the letter.\<close>

definition exponent :: "string \<Rightarrow> int option" where
  "exponent s =
     (let (neg, body) = split_sign s
      in map_option (\<lambda>ds. if neg then - int (digits_val ds) else int (digits_val ds))
           (digitpart body))"

definition scale10 :: "rat \<Rightarrow> int \<Rightarrow> rat" where
  "scale10 m e = (if 0 \<le> e then m * 10 ^ nat e else m / 10 ^ nat (- e))"

definition floatnumber :: "string \<Rightarrow> rat option" where
  "floatnumber s =
     (case partition_at (\<lambda>c. c = CHR ''e'' \<or> c = CHR ''E'') s of
        (m, None) \<Rightarrow> number m
      | (m, Some ex) \<Rightarrow>
          (case (number m, exponent ex) of
             (Some q, Some e) \<Rightarrow> Some (scale10 q e)
           | _ \<Rightarrow> None))"

text \<open>
  \<^verbatim>\<open>float(s)\<close> on a \<^verbatim>\<open>str\<close>: surrounding whitespace is dropped, then an optional sign
  and one of \<^verbatim>\<open>inf\<close>, \<^verbatim>\<open>infinity\<close>, \<^verbatim>\<open>nan\<close> (in any case) or a decimal number with
  an optional exponent; anything else raises \<^verbatim>\<open>ValueError\<close> (\<open>None\<close>).
\<close>

definition py_float :: "string \<Rightarrow> pyfloat option" where
  "py_float s =
     (let (neg, body) = split_sign (strip s)
      in if lower body = ''inf'' \<or> lower body = ''infinity'' then Some (Infinity neg)
         else if lower body = ''nan'' then Some NaN
         else map_option (\<lambda>q. Finite (if neg then - q else q)) (floatnumber body))"

subsection \<open>Records and diagnostics\<close>

text \<open>
  A record is the \<^verbatim>\<open>dict\<close> built for one data line: its items in insertion order.
  The values are Python objects of three classes.
\<close>

datatype pyval = PStr string | PInt int | PFloat pyfloat

type_synonym Record = "(string \<times> pyval) list"

text \<open>The two \<^verbatim>\<open>logging.warning\<close> calls, with the values that their messages format.\<close>

datatype diagnostic =
    HeaderWarning string string
  | FieldCountWarning nat nat string

text \<open>The file handed over by the host: the dictionary keys \<^verbatim>\<open>s_name\<close> and \<^verbatim>\<open>f\<close>.\<close>

datatype logfile = LogFile (s_name: string) (f: string)

definition expected_header :: string where
  "expected_header = ''#Genotype concordance by sample (SNPs)''"

definition EXPECTED_COLUMNS :: "string list" where
  "EXPECTED_COLUMNS =
     [''#GCsS'', ''id'', ''sample_name'', ''#val_gt_RR'', ''#val_gt_RA'', ''#val_gt_AA'',
      ''#filtered_gp'', ''RR_hom_matches'', ''RA_het_matches'', ''AA_hom_matches'',
      ''RR_hom_mismatches'', ''RA_het_mismatches'', ''AA_hom_mismatches'',
      ''RR_hom_mismatches_rate_percent'', ''RA_het_mismatches_rate_percent'',
      ''AA_hom_mimatches'', ''non_reference_discordanc_rate_percent'', ''best_gt_rsquared'',
      ''imputed_ds_rsquared'']"

subsection \<open>The parser\<close>

text \<open>
  The \<^verbatim>\<open>dict(...)\<close> call of the loop body: the keyword arguments are evaluated from
  left to right, and the first coercion that fails raises \<^verbatim>\<open>ValueError\<close> (\<open>None\<close>).
  The argument holds the 19 unpacked tokens; token 2, the sample name, is the key of the
  record and not one of its values.
\<close>

definition make_record :: "string list \<Rightarrow> Record option" where
  "make_record fields = do {
     bins \<leftarrow> py_int (fields ! 1);
     val_gt_RR \<leftarrow> py_int (fields ! 3);
     val_gt_RA \<leftarrow> py_int (fields ! 4);
     val_gt_AA \<leftarrow> py_int (fields ! 5);
     filtered_gp \<leftarrow> py_int (fields ! 6);
     RR_hom_matches \<leftarrow> py_int (fields ! 7);
     RA_het_matches \<leftarrow> py_int (fields ! 8);
     AA_hom_matches \<leftarrow> py_int (fields ! 9);
     RR_hom_mismatches \<leftarrow> py_int (fields ! 10);
     RA_het_mismatches \<leftarrow> py_int (fields ! 11);
     AA_hom_mismatches \<leftarrow> py_int (fields ! 12);
     RR_hom_mismatches_rate_percent \<leftarrow> py_float (fields ! 13);
     RA_het_mismatches_rate_percent \<leftarrow> py_float (fields ! 14);
     AA_hom_mismatches_rate_percent \<leftarrow> py_float (fields ! 15);
     non_reference_discordanc_rate_percent \<leftarrow> py_float (fields ! 16);
     best_gt_rsquared \<leftarrow> py_float (fields ! 17);
     imputed_ds_rsquared \<leftarrow> py_float (fields ! 18);
     Some [(''variants'', PStr (fields ! 0)),
           (''bins'', PInt bins),
           (''val_gt_RR'', PInt val_gt_RR),
           (''val_gt_RA'', PInt val_gt_RA),
           (''val_gt_AA'', PInt val_gt_AA),
           (''filtered_gp'', PInt filtered_gp),
           (''RR_hom_matches'', PInt RR_hom_matches),
           (''RA_het_matches'', PInt RA_het_matches),
           (''AA_hom_matches'', PInt AA_hom_matches),
           (''RR_hom_mismatches'', PInt RR_hom_mismatches),
           (''RA_het_mismatches'', PInt RA_het_mismatches),
           (''AA_hom_mismatches'', PInt AA_hom_mismatches),
           (''RR_hom_mismatches_rate_percent'', PFloat RR_hom_mismatches_rate_percent),
           (''RA_het_mismatches_rate_percent'', PFloat RA_het_mismatches_rate_percent),
           (''AA_hom_mismatches_rate_percent'', PFloat AA_hom_mismatches_rate_percent),
           (''non_reference_discordanc_rate_percent'',
              PFloat non_reference_discordanc_rate_percent),
           (''best_gt_rsquared'', PFloat best_gt_rsquared),
           (''imputed_ds_rsquared'', PFloat imputed_ds_rsquared)]
   }"

text \<open>
  One pass of the loop body on one line. The result is the warnings of the pass and
  either the exception that leaves the loop, or \<open>None\<close> for \<^verbatim>\<open>continue\<close>, or the item
  stored into \<^verbatim>\<open>parsed_data\<close>.

  \<^verbatim>\<open>fields[0][0]\<close> raises \<^verbatim>\<open>IndexError\<close> on an empty first token. After the warning about
  the number of fields there is no \<^verbatim>\<open>continue\<close>: the unpacking into 19 names follows and
  raises \<^verbatim>\<open>ValueError\<close> for any other number of tokens.
\<close>

definition parse_line :: "string \<Rightarrow> diagnostic list \<times> (error + (string \<times> Record) option)" where
  "parse_line line =
     (let fields = split (CHR '' '') (strip line)
      in case fields of
           [] \<Rightarrow> ([], Inl IndexError)
         | [] # _ \<Rightarrow> ([], Inl IndexError)
         | (c # _) # _ \<Rightarrow>
             if c = CHR ''#'' then ([], Inr None)
             else
               let warnings =
                     (if length fields \<noteq> length EXPECTED_COLUMNS
                      then [FieldCountWarning (length fields) (length EXPECTED_COLUMNS) line]
                      else [])
               in if length fields \<noteq> 19 then (warnings, Inl ValueError)
                  else (case make_record fields of
                          None \<Rightarrow> (warnings, Inl ValueError)
                        | Some r \<Rightarrow> (warnings, Inr (Some (fields ! 2, r)))))"

text \<open>The loop over \<^verbatim>\<open>lines[1:]\<close>, with the log written so far and \<^verbatim>\<open>parsed_data\<close> as state.\<close>

fun parse_lines ::
  "string list \<Rightarrow> diagnostic list \<Rightarrow> (string \<rightharpoonup> Record) \<Rightarrow>
   diagnostic list \<times> (error + (string \<rightharpoonup> Record))" where
  "parse_lines [] logged parsed_data = (logged, Inr parsed_data)"
| "parse_lines (line # rest) logged parsed_data =
     (case parse_line line of
        (ws, Inl e) \<Rightarrow> (logged @ ws, Inl e)
      | (ws, Inr None) \<Rightarrow> parse_lines rest (logged @ ws) parsed_data
      | (ws, Inr (Some (sample_name, r))) \<Rightarrow>
          parse_lines rest (logged @ ws) (parsed_data(sample_name \<mapsto> r)))"

text \<open>
  \<^verbatim>\<open>parse_err_spl_report(f)\<close>: the diagnostics logged and the mapping returned or the
  exception raised. \<^verbatim>\<open>lines[0]\<close> raises \<^verbatim>\<open>IndexError\<close> when the text has no line.
\<close>

definition parse_err_spl_report ::
  "logfile \<Rightarrow> diagnostic list \<times> (error + (string \<rightharpoonup> Record))" where
  "parse_err_spl_report file =
     (let lines = splitlines (f file)
      in case lines of
           [] \<Rightarrow> ([], Inl IndexError)
         | first # rest \<Rightarrow>
             if first \<noteq> expected_header
             then ([HeaderWarning expected_header first], Inr Map.empty)
             else parse_lines rest [] Map.empty)"

subsection \<open>The submodule method and the module constructor\<close>

text \<open>The merged data of the module: per log file name, the mapping parsed from it.\<close>

type_synonym samples = "string \<rightharpoonup> (string \<rightharpoonup> Record)"

text \<open>
  The loop of \<^verbatim>\<open>parse_glimpse_err_spl\<close> over the files found by the host. An exception of
  \<^verbatim>\<open>parse_err_spl_report\<close> is not caught. \<^verbatim>\<open>len(metrics) > 0\<close> is a non-empty domain.
\<close>

fun collect_reports :: "logfile list \<Rightarrow> samples \<Rightarrow> error + samples" where
  "collect_reports [] data_by_sample = Inr data_by_sample"
| "collect_reports (file # files) data_by_sample =
     (case snd (parse_err_spl_report file) of
        Inl e \<Rightarrow> Inl e
      | Inr metrics \<Rightarrow>
          if dom metrics \<noteq> {}
          then collect_reports files (data_by_sample(s_name file \<mapsto> metrics))
          else collect_reports files data_by_sample)"

text \<open>
  \<^verbatim>\<open>summary_table\<close> evaluates \<^verbatim>\<open>table.plot(...)\<close> and \<^verbatim>\<open>copy.deepcopy(headers)\<close>, but the
  module binds neither \<^verbatim>\<open>table\<close> nor \<^verbatim>\<open>copy\<close> (its imports are \<^verbatim>\<open>logging\<close>, \<^verbatim>\<open>re\<close>,
  \<^verbatim>\<open>config\<close> and \<^verbatim>\<open>scatter\<close>): the first name looked up raises \<^verbatim>\<open>NameError\<close>.
\<close>

definition summary_table :: "samples \<Rightarrow> error + unit" where
  "summary_table data_by_sample = Inl NameError"

text \<open>
  \<^verbatim>\<open>parse_glimpse_err_spl\<close>. The files found, and the host's \<^verbatim>\<open>ignore_samples\<close> filter, are
  parameters; the other host calls (\<^verbatim>\<open>add_data_source\<close>, \<^verbatim>\<open>add_software_version\<close>,
  \<^verbatim>\<open>write_data_file\<close>, \<^verbatim>\<open>add_section\<close>) and \<^verbatim>\<open>accuracy_by_sample\<close> return normally.
\<close>

definition parse_glimpse_err_spl ::
  "logfile list \<Rightarrow> (samples \<Rightarrow> samples) \<Rightarrow> error + int" where
  "parse_glimpse_err_spl found ignore_samples =
     (case collect_reports found Map.empty of
        Inl e \<Rightarrow> Inl e
      | Inr collected \<Rightarrow>
          let data_by_sample = ignore_samples collected
          in if dom data_by_sample = {} then Inr 0
             else (case summary_table data_by_sample of
                     Inl e \<Rightarrow> Inl e
                   | Inr _ \<Rightarrow> Inr (int (card (dom data_by_sample)))))"

text \<open>
  \<^verbatim>\<open>MultiqcModule.__init__\<close>. The submodule \<^verbatim>\<open>err_grp\<close> is not among the sources: what its
  method \<^verbatim>\<open>parse_glimpse_err_grp\<close> returns or raises is the parameter \<open>err_grp\<close>.
  The counter starts at 1.
\<close>

definition MultiqcModule_init ::
  "logfile list \<Rightarrow> (samples \<Rightarrow> samples) \<Rightarrow> error + int \<Rightarrow> error + unit" where
  "MultiqcModule_init found ignore_samples err_grp =
     (let n_reports_found = (1::int)
      in case parse_glimpse_err_spl found ignore_samples of
           Inl e \<Rightarrow> Inl e
         | Inr n_spl \<Rightarrow>
             (case err_grp of
                Inl e \<Rightarrow> Inl e
              | Inr n_grp \<Rightarrow>
                  if n_reports_found + n_spl + n_grp = 0 then Inl ModuleNoSamplesFound
                  else Inr ()))"

subsection \<open>Vocabulary of the properties\<close>

text \<open>The tokens that the loop body computes for a line.\<close>

definition tokens :: "string \<Rightarrow> string list" where
  "tokens line = split (CHR '' '') (strip line)"

text \<open>A line that is empty or consists of whitespace only.\<close>

definition is_blank :: "string \<Rightarrow> bool" where
  "is_blank line \<longleftrightarrow> (\<forall>c \<in> set line. isspace c)"

text \<open>A line whose first token starts with the comment marker.\<close>

definition is_comment :: "string \<Rightarrow> bool" where
  "is_comment line \<longleftrightarrow> (case tokens line of (c # _) # _ \<Rightarrow> c = CHR ''#'' | _ \<Rightarrow> False)"

text \<open>The positions of the tokens that go through \<^verbatim>\<open>int()\<close> and through \<^verbatim>\<open>float()\<close>.\<close>

definition int_slots :: "nat list" where
  "int_slots = [1, 3, 4, 5, 6, 7, 8, 9, 10, 11, 12]"

definition float_slots :: "nat list" where
  "float_slots = [13, 14, 15, 16, 17, 18]"

definition numeric_ok :: "string list \<Rightarrow> bool" where
  "numeric_ok fields \<longleftrightarrow>
     (\<forall>i \<in> set int_slots. py_int (fields ! i) \<noteq> None) \<and>
     (\<forall>i \<in> set float_slots. py_float (fields ! i) \<noteq> None)"

text \<open>A data line of the documented format: 19 tokens, no comment, numeric slots numeric.\<close>

definition well_formed :: "string \<Rightarrow> bool" where
  "well_formed line \<longleftrightarrow>
     \<not> is_comment line \<and> length (tokens line) = 19 \<and> numeric_ok (tokens line)"







text \<open>The example of the function's docstring and of the specification.\<close>

definition example_line :: string where
  "example_line =
     ''GCsS 0 NA12878 851 3 0 0 602 0 0 3 1 0 0.496 100.000 0.000 100.000 0.000008 0.000008''"

definition example_record :: Record where
  "example_record =
     [(''variants'', PStr ''GCsS''), (''bins'', PInt 0), (''val_gt_RR'', PInt 851),
      (''val_gt_RA'', PInt 3), (''val_gt_AA'', PInt 0), (''filtered_gp'', PInt 0),
      (''RR_hom_matches'', PInt 602), (''RA_het_matches'', PInt 0),
      (''AA_hom_matches'', PInt 0), (''RR_hom_mismatches'', PInt 3),
      (''RA_het_mismatches'', PInt 1), (''AA_hom_mismatches'', PInt 0),
      (''RR_hom_mismatches_rate_percent'', PFloat (Finite (496 / 1000))),
      (''RA_het_mismatches_rate_percent'', PFloat (Finite 100)),
      (''AA_hom_mismatches_rate_percent'', PFloat (Finite 0)),
      (''non_reference_discordanc_rate_percent'', PFloat (Finite 100)),
      (''best_gt_rsquared'', PFloat (Finite (8 / 1000000))),
      (''imputed_ds_rsquared'', PFloat (Finite (8 / 1000000)))]"

text \<open>\<^verbatim>\<open>sep.join(parts)\<close>, and a text from its lines: \<^verbatim>\<open>LF.join(lines)\<close>.\<close>

fun join :: "string \<Rightarrow> string list \<Rightarrow> string" where
  "join sep [] = []"
| "join sep [part] = part"
| "join sep (part # parts) = part @ sep @ join sep parts"

definition unlines :: "string list \<Rightarrow> string" where
  "unlines ls = join [CHR 0x0A] ls"

text \<open>Lines and records used as concrete inputs.\<close>

definition indels_header :: string where
  "indels_header = ''#Genotype concordance by sample (indels)''"




definition other_line :: string where
  "other_line = ''GCsS 1 NA12878 7 2 1 0 5 1 1 2 1 0 28.571 50.000 0.000 66.667 0.5 0.25''"

definition other_record :: Record where
  "other_record =
     [(''variants'', PStr ''GCsS''), (''bins'', PInt 1), (''val_gt_RR'', PInt 7),
      (''val_gt_RA'', PInt 2), (''val_gt_AA'', PInt 1), (''filtered_gp'', PInt 0),
      (''RR_hom_matches'', PInt 5), (''RA_het_matches'', PInt 1),
      (''AA_hom_matches'', PInt 1), (''RR_hom_mismatches'', PInt 2),
      (''RA_het_mismatches'', PInt 1), (''AA_hom_mismatches'', PInt 0),
      (''RR_hom_mismatches_rate_percent'', PFloat (Finite (28571 / 1000))),
      (''RA_het_mismatches_rate_percent'', PFloat (Finite 50)),
      (''AA_hom_mismatches_rate_percent'', PFloat (Finite 0)),
      (''non_reference_discordanc_rate_percent'', PFloat (Finite (66667 / 1000))),
      (''best_gt_rsquared'', PFloat (Finite (1 / 2))),
      (''imputed_ds_rsquared'', PFloat (Finite (1 / 4)))]"

















section \<open>Properties\<close>

subsection \<open>Facts about the built-ins\<close>

lemma splitlines_from_nonempty: "cur \<noteq> [] \<or> s \<noteq> [] \<Longrightarrow> splitlines_from cur s \<noteq> []"
  by (induction s arbitrary: cur) auto

lemma splitlines_nonempty: "s \<noteq> [] \<Longrightarrow> splitlines s \<noteq> []"
  by (simp add: splitlines_def splitlines_from_nonempty)

lemma length_EXPECTED_COLUMNS: "length EXPECTED_COLUMNS = 19"
  by (simp add: EXPECTED_COLUMNS_def)

lemma dropWhile_all: "(\<forall>x \<in> set (dropWhile P s). P x) \<longleftrightarrow> (\<forall>x \<in> set s. P x)"
  by (induction s) auto

lemma strip_eq_Nil_iff: "strip line = [] \<longleftrightarrow> is_blank line"
  by (simp add: is_blank_def strip_def dropWhile_all)

lemma strip_blank: "is_blank line \<Longrightarrow> strip line = []"
  by (simp add: strip_eq_Nil_iff)

lemma hd_strip: "strip line \<noteq> [] \<Longrightarrow> \<not> isspace (hd (strip line))"
proof -
  assume a: "strip line \<noteq> []"
  define t where "t = dropWhile isspace line"
  from a have tn: "t \<noteq> []" by (auto simp: strip_def t_def dropWhile_all)
  then obtain x t' where t: "t = x # t'" by (cases t) auto
  have nx: "\<not> isspace x" using t unfolding t_def by (metis hd_dropWhile list.sel(1) list.distinct(1))
  have "strip line = rev (dropWhile isspace (rev t' @ [x]))" by (simp add: strip_def t_def[symmetric] t)
  also have "\<dots> = x # rev (dropWhile isspace (rev t'))" using nx by (simp add: dropWhile_append)
  finally show ?thesis using nx by simp
qed

lemma split_from_nonempty: "split_from sep cur s \<noteq> []"
  by (induction s arbitrary: cur) auto

lemma hd_split_from: "hd (split_from sep cur s) = cur @ takeWhile (\<lambda>c. c \<noteq> sep) s"
  by (induction s arbitrary: cur) auto

lemma tokens_nonempty: "tokens line \<noteq> []"
  by (simp add: tokens_def split_def split_from_nonempty)

lemma hd_tokens_nonempty: "\<not> is_blank line \<Longrightarrow> hd (tokens line) \<noteq> []"
proof -
  assume "\<not> is_blank line"
  then have n: "strip line \<noteq> []" by (simp add: strip_eq_Nil_iff)
  then have "\<not> isspace (hd (strip line))" by (rule hd_strip)
  then have "hd (strip line) \<noteq> CHR '' ''" by (auto simp: isspace_def)
  with n show ?thesis
    by (cases "strip line") (auto simp: tokens_def split_def hd_split_from)
qed

lemma tokens_blank: "is_blank line \<Longrightarrow> tokens line = [[]]"
  by (simp add: tokens_def strip_blank split_def)

lemma make_record_None_iff: "make_record fields = None \<longleftrightarrow> \<not> numeric_ok fields"
  by (auto simp: make_record_def numeric_ok_def int_slots_def float_slots_def
           split: Option.bind_splits)

subsection \<open>Facts about one pass of the loop body\<close>

lemma parse_line_blank: "is_blank line \<Longrightarrow> parse_line line = ([], Inl IndexError)"
  using tokens_blank[of line] by (simp add: parse_line_def tokens_def)

lemma parse_line_comment: "is_comment line \<Longrightarrow> parse_line line = ([], Inr None)"
  by (auto simp: parse_line_def is_comment_def tokens_def Let_def split: list.splits)

lemma tokens_19_not_blank: "length (tokens line) = 19 \<Longrightarrow> \<not> is_blank line"
  using tokens_blank[of line] by auto

lemma parse_line_data:
  assumes "\<not> is_comment line" and "\<not> is_blank line"
  shows "parse_line line =
           (if length (tokens line) \<noteq> 19
            then ([FieldCountWarning (length (tokens line)) 19 line], Inl ValueError)
            else case make_record (tokens line) of
                   None \<Rightarrow> ([], Inl ValueError)
                 | Some r \<Rightarrow> ([], Inr (Some (tokens line ! 2, r))))"
proof -
  from assms(2) have "hd (tokens line) \<noteq> []" by (rule hd_tokens_nonempty)
  then obtain c t ts where t: "tokens line = (c # t) # ts"
    using tokens_nonempty[of line] by (cases "tokens line"; cases "hd (tokens line)") auto
  with assms(1) have "c \<noteq> CHR ''#''" by (simp add: is_comment_def)
  with t show ?thesis
    unfolding parse_line_def tokens_def[symmetric] Let_def
    by (simp add: length_EXPECTED_COLUMNS)
qed

lemma parse_line_well_formed:
  "well_formed line \<Longrightarrow>
   parse_line line = ([], Inr (Some (tokens line ! 2, the (make_record (tokens line)))))"
  using make_record_None_iff[of "tokens line"]
  by (auto simp: well_formed_def parse_line_data tokens_19_not_blank)


lemma parse_line_stored:
  assumes "parse_line line = (ws, Inr (Some (k, r)))"
  shows "well_formed line \<and> ws = [] \<and> k = tokens line ! 2 \<and> make_record (tokens line) = Some r"
proof (cases "is_blank line \<or> is_comment line")
  case True
  with assms show ?thesis by (auto simp: parse_line_blank parse_line_comment)
next
  case False
  with assms show ?thesis
    using make_record_None_iff[of "tokens line"]
    by (auto simp: parse_line_data well_formed_def split: if_splits option.splits)
qed

lemma parse_line_skipped:
  assumes "parse_line line = (ws, Inr None)"
  shows "is_comment line \<and> ws = []"
proof (cases "is_blank line \<or> is_comment line")
  case True
  with assms show ?thesis by (auto simp: parse_line_blank parse_line_comment)
next
  case False
  with assms show ?thesis
    by (auto simp: parse_line_data split: if_splits option.splits)
qed

subsection \<open>Facts about the loop\<close>

lemma parse_lines_append:
  "parse_lines (xs @ ys) lg pd =
     (case parse_lines xs lg pd of
        (lg', Inl e) \<Rightarrow> (lg', Inl e)
      | (lg', Inr pd') \<Rightarrow> parse_lines ys lg' pd')"
  by (induction xs arbitrary: lg pd) (auto split: prod.splits sum.splits option.splits)




lemma parse_lines_other_keys:
  assumes "parse_lines ls lg pd = (lg', Inr m)"
    and "\<forall>l \<in> set ls. well_formed l \<longrightarrow> tokens l ! 2 \<noteq> name"
  shows "m name = pd name"
  using assms
proof (induction ls arbitrary: lg pd)
  case Nil
  then show ?case by simp
next
  case (Cons l ls)
  obtain ws res where pl: "parse_line l = (ws, res)" by (cases "parse_line l")
  show ?case
  proof (cases res)
    case (Inl e)
    with Cons.prems pl show ?thesis by simp
  next
    case (Inr item)
    show ?thesis
    proof (cases item)
      case None
      with Cons pl Inr show ?thesis by simp
    next
      case (Some kr)
      obtain k r where kr: "kr = (k, r)" by (cases kr)
      with pl Inr Some have st: "well_formed l \<and> k = tokens l ! 2"
        using parse_line_stored[of l ws k r] by simp
      with Cons.prems(2) have ne: "k \<noteq> name" by simp
      from Cons.prems(1) pl Inr Some kr
      have step: "parse_lines ls (lg @ ws) (pd(k \<mapsto> r)) = (lg', Inr m)" by simp
      from Cons.prems(2) have others: "\<forall>l \<in> set ls. well_formed l \<longrightarrow> tokens l ! 2 \<noteq> name"
        by simp
      have "m name = (pd(k \<mapsto> r)) name" by (rule Cons.IH[OF step others])
      with ne show ?thesis by simp
    qed
  qed
qed

lemma parse_lines_Inr_prefix:
  assumes "parse_lines (xs @ ys) lg pd = (lg', Inr m)"
  shows "\<exists>lg1 m1. parse_lines xs lg pd = (lg1, Inr m1) \<and> parse_lines ys lg1 m1 = (lg', Inr m)"
  using assms by (auto simp: parse_lines_append split: prod.splits sum.splits)



subsection \<open>Facts about the concrete inputs\<close>

lemma example_lines:
  "splitlines (unlines [expected_header, example_line]) = [expected_header, example_line]"
  by code_simp

lemma parse_example_line:
  "parse_line example_line = ([], Inr (Some (''NA12878'', example_record)))"
  by code_simp

lemma parse_other_line:
  "parse_line other_line = ([], Inr (Some (''NA12878'', other_record)))"
  by code_simp


lemma well_formed_example: "well_formed example_line"
  by code_simp

lemma well_formed_other: "well_formed other_line"
  by code_simp


lemma comment_indels: "is_comment indels_header"
  by code_simp

lemma indels_header_ne: "indels_header \<noteq> expected_header"
  by code_simp



lemma lines_a: "splitlines (unlines [indels_header, example_line]) = [indels_header, example_line]"
  by code_simp





lemma lines_g:
  "splitlines (unlines [expected_header, example_line, indels_header, other_line, indels_header])
     = [expected_header, example_line, indels_header, other_line, indels_header]"
  by code_simp



subsection \<open>Exceptions\<close>







subsection \<open>The header check\<close>

text \<open>
  C3. On the text with zero lines the function does not return the empty mapping: the
  list of lines is empty, no diagnostic is logged and \<^verbatim>\<open>lines[0]\<close> raises
  \<^verbatim>\<open>IndexError\<close>.
\<close>

theorem empty_text_raises_IndexError:
  "parse_err_spl_report (LogFile name []) = ([], Inl IndexError)"
  by (simp add: parse_err_spl_report_def splitlines_def)

text \<open>
  C4. A non-empty text whose first line is not the expected header yields the empty
  mapping (and the header warning), whatever lines follow.
\<close>

theorem header_mismatch_yields_empty_mapping:
  assumes "f file \<noteq> []"
    and "hd (splitlines (f file)) \<noteq> expected_header"
  shows "parse_err_spl_report file =
           ([HeaderWarning expected_header (hd (splitlines (f file)))], Inr Map.empty)"
proof -
  from assms(1) obtain first rest where "splitlines (f file) = first # rest"
    using splitlines_nonempty by (cases "splitlines (f file)") auto
  with assms(2) show ?thesis
    by (simp add: parse_err_spl_report_def)
qed

theorem header_mismatch_yields_empty_mapping_witness:
  "f (LogFile ''sample1'' (unlines [indels_header, example_line])) \<noteq> []
   \<and> hd (splitlines (f (LogFile ''sample1'' (unlines [indels_header, example_line]))))
       \<noteq> expected_header
   \<and> parse_err_spl_report (LogFile ''sample1'' (unlines [indels_header, example_line]))
       = ([HeaderWarning expected_header indels_header], Inr Map.empty)"
proof -
  have n: "f (LogFile ''sample1'' (unlines [indels_header, example_line])) \<noteq> []"
    by (simp add: unlines_def indels_header_def)
  have h: "hd (splitlines (f (LogFile ''sample1'' (unlines [indels_header, example_line]))))
             \<noteq> expected_header"
    by (simp add: lines_a indels_header_ne)
  show ?thesis
    using header_mismatch_yields_empty_mapping[OF n h] n h by (simp add: lines_a)
qed

subsection \<open>The example\<close>

text \<open>
  C5. The two-line input of the example, the header and the data line of sample NA12878,
  parses without a diagnostic to the mapping with the single key NA12878, whose record
  holds the 18 values of the example with their types.
\<close>

theorem example_parses_to_record:
  "parse_err_spl_report (LogFile name (unlines [expected_header, example_line]))
     = ([], Inr [''NA12878'' \<mapsto> example_record])
   \<and> dom [''NA12878'' \<mapsto> example_record] = {''NA12878''}
   \<and> length example_record = 18"
  by (simp add: parse_err_spl_report_def example_lines parse_example_line example_record_def)

subsection \<open>The fields of a record\<close>




subsection \<open>The module constructor\<close>

lemma parse_line_error: "parse_line line = (ws, Inl e) \<Longrightarrow> e = IndexError \<or> e = ValueError"
  by (auto simp: parse_line_def Let_def split: list.splits if_splits option.splits)

lemma parse_lines_error:
  "parse_lines ls lg pd = (lg', Inl e) \<Longrightarrow> e = IndexError \<or> e = ValueError"
proof (induction ls arbitrary: lg pd)
  case Nil
  then show ?case by simp
next
  case (Cons l ls)
  obtain ws res where pl: "parse_line l = (ws, res)" by (cases "parse_line l")
  show ?case
  proof (cases res)
    case (Inl e')
    with Cons.prems pl show ?thesis using parse_line_error[of l ws e'] by simp
  next
    case (Inr item)
    with Cons pl show ?thesis by (cases item) (auto split: prod.splits)
  qed
qed

lemma parse_err_spl_report_error:
  "parse_err_spl_report file = (lg, Inl e) \<Longrightarrow> e = IndexError \<or> e = ValueError"
  by (auto simp: parse_err_spl_report_def Let_def parse_lines_error split: list.splits if_splits)

lemma collect_reports_error:
  "collect_reports lfs d = Inl e \<Longrightarrow> e = IndexError \<or> e = ValueError"
proof (induction lfs arbitrary: d)
  case Nil
  then show ?case by simp
next
  case (Cons lf lfs)
  obtain lg res where p: "parse_err_spl_report lf = (lg, res)"
    by (cases "parse_err_spl_report lf")
  show ?case
  proof (cases res)
    case (Inl e')
    with Cons.prems p show ?thesis using parse_err_spl_report_error[of lf lg e'] by simp
  next
    case (Inr metrics)
    with Cons p show ?thesis by (auto split: if_splits)
  qed
qed

lemma parse_glimpse_err_spl_result:
  "parse_glimpse_err_spl found ignore_samples = Inr 0
   \<or> parse_glimpse_err_spl found ignore_samples \<in> {Inl IndexError, Inl ValueError, Inl NameError}"
proof (cases "collect_reports found Map.empty")
  case (Inl e)
  then show ?thesis
    using collect_reports_error[of found Map.empty e] by (auto simp: parse_glimpse_err_spl_def)
next
  case (Inr collected)
  then show ?thesis
    by (simp add: parse_glimpse_err_spl_def summary_table_def Let_def)
qed

lemma ModuleNoSamplesFound_only_for_minus_one:
  "MultiqcModule_init found ignore_samples (Inr n_grp) = Inl ModuleNoSamplesFound
     \<Longrightarrow> n_grp = - 1"
  using parse_glimpse_err_spl_result[of found ignore_samples]
  by (auto simp: MultiqcModule_init_def split: if_splits)

text \<open>
  C7. When no log yields data the constructor does not raise \<^verbatim>\<open>ModuleNoSamplesFound\<close>:
  with no file at all, and with one file that is rejected for its header, both submodule
  methods return 0, the counter that started at 1 is 1, and the constructor completes.
\<close>

theorem no_samples_found_is_not_raised:
  "MultiqcModule_init [] id (Inr 0) = Inr ()
   \<and> MultiqcModule_init [LogFile ''sample1'' (unlines [indels_header, example_line])] id (Inr 0)
       = Inr ()"
  by (simp add: MultiqcModule_init_def parse_glimpse_err_spl_def parse_err_spl_report_def
      lines_a indels_header_ne)

subsection \<open>Duplicate sample names\<close>

text \<open>
  C8. When the returned mapping comes from a text with two well-formed data lines of the
  same sample name, and no later line carries that name, the mapping holds under that
  name the record of the later line, whatever the earlier line held.
\<close>

theorem later_duplicate_replaces_earlier:
  assumes "parse_err_spl_report file = (logged, Inr m)"
    and "splitlines (f file) = expected_header # pre @ earlier # mid @ later # post"
    and "well_formed earlier" and "well_formed later"
    and "tokens earlier ! 2 = tokens later ! 2"
    and "\<forall>l \<in> set post. well_formed l \<longrightarrow> tokens l ! 2 \<noteq> tokens later ! 2"
  shows "\<exists>r. make_record (tokens later) = Some r \<and> m (tokens later ! 2) = Some r"
proof -
  have "parse_lines ((pre @ earlier # mid) @ later # post) [] Map.empty = (logged, Inr m)"
    using assms(1,2) by (simp add: parse_err_spl_report_def)
  then obtain lg1 m1 where "parse_lines (later # post) lg1 m1 = (logged, Inr m)"
    using parse_lines_Inr_prefix by blast
  moreover obtain r where r: "make_record (tokens later) = Some r"
    using assms(4) make_record_None_iff[of "tokens later"] by (auto simp: well_formed_def)
  ultimately have "parse_lines post lg1 (m1(tokens later ! 2 \<mapsto> r)) = (logged, Inr m)"
    using assms(4) by (simp add: parse_line_well_formed)
  then have "m (tokens later ! 2) = (m1(tokens later ! 2 \<mapsto> r)) (tokens later ! 2)"
    using assms(6) by (rule parse_lines_other_keys)
  with r show ?thesis by simp
qed

theorem later_duplicate_replaces_earlier_witness:
  "parse_err_spl_report (LogFile ''sample1''
       (unlines [expected_header, example_line, indels_header, other_line, indels_header]))
     = ([], Inr [''NA12878'' \<mapsto> other_record])
   \<and> well_formed example_line \<and> well_formed other_line
   \<and> tokens example_line ! 2 = tokens other_line ! 2
   \<and> (\<exists>r. make_record (tokens other_line) = Some r
          \<and> [''NA12878'' \<mapsto> other_record] (tokens other_line ! 2) = Some r)"
proof -
  have p: "parse_err_spl_report (LogFile ''sample1''
       (unlines [expected_header, example_line, indels_header, other_line, indels_header]))
     = ([], Inr [''NA12878'' \<mapsto> other_record])"
    by (simp add: parse_err_spl_report_def lines_g parse_example_line parse_other_line
        parse_line_comment comment_indels)
  have s: "splitlines (f (LogFile ''sample1''
       (unlines [expected_header, example_line, indels_header, other_line, indels_header])))
     = expected_header # [] @ example_line # [indels_header] @ other_line # [indels_header]"
    by (simp add: lines_g)
  have t: "tokens example_line ! 2 = tokens other_line ! 2"
    by code_simp
  have q: "\<forall>l \<in> set [indels_header]. well_formed l \<longrightarrow> tokens l ! 2 \<noteq> tokens other_line ! 2"
    using comment_indels by (simp add: well_formed_def)
  show ?thesis
    using later_duplicate_replaces_earlier[OF p s well_formed_example well_formed_other t q]
      p well_formed_example well_formed_other t
    by blast
qed

subsection \<open>Round trip\<close>

subsubsection \<open>Writing and reading back\<close>
































subsubsection \<open>The property\<close>




subsection \<open>Blank lines\<close>




end
